theory Spec2Isabelle
  imports Main
begin

section \<open>The metadata builders of wsidicomizer/dataset.py\<close>

text \<open>
  The module builds the DICOM attribute records of a whole-slide image: the image type
  of a pyramid level, the description of a specimen (with its optional staining step)
  and the specimen module of a slide. The functions below follow
  \<^verbatim>\<open>src/wsidicomizer/dataset.py\<close> statement by statement.
\<close>

subsection \<open>Image type\<close>

text \<open>
  \<^verbatim>\<open>get_image_type(image_flavor, level_index)\<close>, lines 17 to 37. The flavour is a Python
  string and the level index an unbounded Python integer. The first element of the list
  is the literal the source writes, \<^verbatim>\<open>'ORGINAL'\<close>.
\<close>

definition get_image_type :: "string \<Rightarrow> int \<Rightarrow> string list" where
  "get_image_type image_flavor level_index =
     (let resampled =
        (if image_flavor = ''VOLUME'' \<and> level_index = 0 then ''NONE''
         else ''RESAMPLED'')
      in [''ORGINAL'', ''PRIMARY'', image_flavor, resampled])"

subsection \<open>Coded concepts and their vocabularies\<close>

text \<open>
  A \<^verbatim>\<open>pydicom\<close> code is the triple (value, scheme designator, meaning). The four
  context groups the module reads (embedding media, fixatives, preparation procedures,
  stains) live in the package \<^verbatim>\<open>wsidicom.conceptcode\<close>, outside this repository: each
  is a parameter here, a finite table from the meaning string to its code.
\<close>

record Code =
  code_value :: string
  scheme_designator :: string
  meaning :: string

record vocabulary =
  embedding_media :: "string \<Rightarrow> Code option"
  fixatives :: "string \<Rightarrow> Code option"
  preparation_procedures :: "string \<Rightarrow> Code option"
  stains :: "string \<Rightarrow> Code option"

datatype category = EmbeddingMedium | Fixative | PreparationProcedure | Stain

datatype error = UnknownCodeError category string

text \<open>
  Modelled from the spec: the constructors \<^verbatim>\<open>SpecimenEmbeddingMediaCode\<close>,
  \<^verbatim>\<open>SpecimenFixativesCode\<close>, \<^verbatim>\<open>SpecimenPreparationProcedureCode\<close> and
  \<^verbatim>\<open>SpecimenStainsCode\<close> of \<^verbatim>\<open>wsidicom.conceptcode\<close> are imported by the module and
  are not part of its source. Section 4.1 of the specification gives their contract:
  given a category and a human-readable string, return the matching coded concept, or
  fail with \<^verbatim>\<open>UnknownCodeError\<close> when the string is not registered in the vocabulary of
  that category; a pure look-up that never matches across categories. The error value
  carries the category and the string that failed.
\<close>

definition resolve :: "category \<Rightarrow> (string \<Rightarrow> Code option) \<Rightarrow> string \<Rightarrow> error + Code" where
  "resolve cat table s =
     (case table s of None \<Rightarrow> Inl (UnknownCodeError cat s) | Some c \<Rightarrow> Inr c)"

definition SpecimenEmbeddingMediaCode :: "vocabulary \<Rightarrow> string \<Rightarrow> error + Code" where
  "SpecimenEmbeddingMediaCode V s = resolve EmbeddingMedium (embedding_media V) s"

definition SpecimenFixativesCode :: "vocabulary \<Rightarrow> string \<Rightarrow> error + Code" where
  "SpecimenFixativesCode V s = resolve Fixative (fixatives V) s"

definition SpecimenPreparationProcedureCode :: "vocabulary \<Rightarrow> string \<Rightarrow> error + Code" where
  "SpecimenPreparationProcedureCode V s =
     resolve PreparationProcedure (preparation_procedures V) s"

definition SpecimenStainsCode :: "vocabulary \<Rightarrow> string \<Rightarrow> error + Code" where
  "SpecimenStainsCode V s = resolve Stain (stains V) s"

subsection \<open>Specimen description\<close>

text \<open>
  The value objects \<^verbatim>\<open>SpecimenStaining\<close>, \<^verbatim>\<open>SpecimenPreparationStep\<close> and
  \<^verbatim>\<open>SpecimenDescription\<close> come from \<^verbatim>\<open>highdicom.content\<close>. Each is modelled as the
  record of the keyword arguments the module passes to its constructor: the staining as
  the list of its substances, in the order given.
\<close>

record SpecimenPreparationStep =
  step_specimen_id :: string
  step_processing_type :: Code
  step_processing_procedure :: "Code list"
  step_embedding_medium :: "Code option"
  step_fixative :: "Code option"

record SpecimenDescription =
  specimen_id :: string
  specimen_uid :: string
  specimen_preparation_steps :: "SpecimenPreparationStep list option"

text \<open>
  The preparation steps a description holds: none when the constructor was given
  \<^verbatim>\<open>None\<close>.
\<close>

definition preparation_steps :: "SpecimenDescription \<Rightarrow> SpecimenPreparationStep list" where
  "preparation_steps d =
     (case specimen_preparation_steps d of None \<Rightarrow> [] | Some steps \<Rightarrow> steps)"

text \<open>
  The list comprehension of lines 128 to 130,
  \<^verbatim>\<open>[SpecimenStainsCode(staining).code for staining in stainings]\<close>: the strings are
  resolved from left to right, and the first one that fails raises.
\<close>

fun resolve_stainings :: "vocabulary \<Rightarrow> string list \<Rightarrow> error + Code list" where
  "resolve_stainings V [] = Inr []"
| "resolve_stainings V (staining # rest) =
     (case SpecimenStainsCode V staining of
        Inl e \<Rightarrow> Inl e
      | Inr c \<Rightarrow>
          (case resolve_stainings V rest of
             Inl e \<Rightarrow> Inl e
           | Inr cs \<Rightarrow> Inr (c # cs)))"

text \<open>
  \<^verbatim>\<open>create_simple_sample\<close>, lines 109 to 147. The UID generator is a callable with
  effects: it is a function from its state to the UID it returns and its next state, and
  the state is threaded through the call. The result pairs the outcome (the raised error
  or the returned description) with the generator's state afterwards, so that a call that
  raises shows how often the generator ran before. An absent argument (\<^verbatim>\<open>None\<close>) is
  \<open>None\<close>; the test of line 126 is \<^verbatim>\<open>stainings is not None\<close>, which an empty list
  passes.
\<close>

definition create_simple_sample ::
  "vocabulary \<Rightarrow> string \<Rightarrow> string option \<Rightarrow> string option \<Rightarrow> string list option \<Rightarrow>
     ('g \<Rightarrow> string \<times> 'g) \<Rightarrow> 'g \<Rightarrow> (error + SpecimenDescription) \<times> 'g" where
  "create_simple_sample V sample_id embedding_medium fixative stainings uid_generator g =
     (case (case embedding_medium of
              Some m \<Rightarrow> map_sum id Some (SpecimenEmbeddingMediaCode V m)
            | None \<Rightarrow> Inr None) of
        Inl e \<Rightarrow> (Inl e, g)
      | Inr embedding_medium_code \<Rightarrow>
     (case (case fixative of
              Some f \<Rightarrow> map_sum id Some (SpecimenFixativesCode V f)
            | None \<Rightarrow> Inr None) of
        Inl e \<Rightarrow> (Inl e, g)
      | Inr fixative_code \<Rightarrow>
     (case (case stainings of
              Some L \<Rightarrow>
                (case SpecimenPreparationProcedureCode V ''Staining'' of
                   Inl e \<Rightarrow> Inl e
                 | Inr processing_type \<Rightarrow>
                (case resolve_stainings V L of
                   Inl e \<Rightarrow> Inl e
                 | Inr processing_procedure \<Rightarrow>
                     Inr (Some [\<lparr>step_specimen_id = sample_id,
                                 step_processing_type = processing_type,
                                 step_processing_procedure = processing_procedure,
                                 step_embedding_medium = embedding_medium_code,
                                 step_fixative = fixative_code\<rparr>])))
            | None \<Rightarrow> Inr None) of
        Inl e \<Rightarrow> (Inl e, g)
      | Inr sample_preparation_steps \<Rightarrow>
          (case uid_generator g of
             (uid, g') \<Rightarrow>
               (Inr \<lparr>specimen_id = sample_id,
                     specimen_uid = uid,
                     specimen_preparation_steps = sample_preparation_steps\<rparr>, g')))))"

subsection \<open>Specimen module of a slide\<close>

text \<open>
  \<^verbatim>\<open>create_simple_specimen_module(slide_id, samples)\<close>, lines 150 to 185. A
  \<^verbatim>\<open>Dataset\<close> is the record of the attributes the function assigns, a
  \<^verbatim>\<open>DicomSequence\<close> the list of its items.
\<close>

record CodeItem =
  CodeValue :: string
  CodingSchemeDesignator :: string
  CodeMeaning :: string

record ContainerComponent =
  ContainerComponentMaterial :: string
  ContainerComponentTypeCodeSequence :: "CodeItem list"

record SpecimenModule =
  ContainerIdentifier :: string
  ContainerTypeCodeSequence :: "CodeItem list"
  ContainerComponentSequence :: "ContainerComponent list"
  SpecimenDescriptionSequence :: "SpecimenDescription list"

definition create_simple_specimen_module ::
  "string \<Rightarrow> SpecimenDescription list \<Rightarrow> SpecimenModule" where
  "create_simple_specimen_module slide_id samples =
     (let container_type_code_sequence =
            \<lparr>CodeValue = ''258661006'', CodingSchemeDesignator = ''SCT'',
             CodeMeaning = ''Slide''\<rparr>;
          container_component_type_code_sequence =
            \<lparr>CodeValue = ''433472003'', CodingSchemeDesignator = ''SCT'',
             CodeMeaning = ''Microscope slide coverslip''\<rparr>;
          container_component_sequence =
            \<lparr>ContainerComponentMaterial = ''GLASS'',
             ContainerComponentTypeCodeSequence =
               [container_component_type_code_sequence]\<rparr>;
          specimen_description_sequence = samples
      in \<lparr>ContainerIdentifier = slide_id,
          ContainerTypeCodeSequence = [container_type_code_sequence],
          ContainerComponentSequence = [container_component_sequence],
          SpecimenDescriptionSequence = specimen_description_sequence\<rparr>)"

subsection \<open>Concrete inputs\<close>

text \<open>
  A small vocabulary for evaluating the builders on concrete calls: a few entries of
  the context groups, and a UID generator that counts its calls (its state is the number
  of calls made so far, and the UID it returns is built from that number).
\<close>

definition sample_vocabulary :: vocabulary where
  "sample_vocabulary =
     \<lparr>embedding_media = map_of
        [(''Paraffin wax'',
          \<lparr>code_value = ''311731000'', scheme_designator = ''SCT'',
           meaning = ''Paraffin wax''\<rparr>)],
      fixatives = map_of
        [(''Neutral Buffered Formalin'',
          \<lparr>code_value = ''434162003'', scheme_designator = ''SCT'',
           meaning = ''Neutral Buffered Formalin''\<rparr>)],
      preparation_procedures = map_of
        [(''Staining'',
          \<lparr>code_value = ''127790008'', scheme_designator = ''SCT'',
           meaning = ''Staining''\<rparr>)],
      stains = map_of
        [(''hematoxylin stain'',
          \<lparr>code_value = ''12710003'', scheme_designator = ''SCT'',
           meaning = ''hematoxylin stain''\<rparr>),
         (''water soluble eosin stain'',
          \<lparr>code_value = ''36879007'', scheme_designator = ''SCT'',
           meaning = ''water soluble eosin stain''\<rparr>)]\<rparr>"

definition counting_uid :: "nat \<Rightarrow> string \<times> nat" where
  "counting_uid n = (''1.2.826.0.1.3680043.8.498.'' @ replicate (Suc n) CHR ''1'', Suc n)"

section \<open>Properties\<close>

subsection \<open>The staining look-ups\<close>

text \<open>
  What the comprehension returns: the codes of all the strings when each is registered,
  and otherwise the error of the first string that is not.
\<close>

lemma resolve_stainings_Inr:
  "resolve_stainings V L = Inr cs \<Longrightarrow> map (stains V) L = map Some cs"
proof (induction L arbitrary: cs)
  case Nil
  then show ?case by simp
next
  case (Cons staining rest)
  then show ?case
    by (auto simp: SpecimenStainsCode_def resolve_def split: option.splits sum.splits)
qed

lemma resolve_stainings_find:
  "resolve_stainings V L =
     (case find (\<lambda>s. stains V s = None) L of
        Some s \<Rightarrow> Inl (UnknownCodeError Stain s)
      | None \<Rightarrow> Inr (map (\<lambda>s. the (stains V s)) L))"
  by (induction L)
     (auto simp: SpecimenStainsCode_def resolve_def split: option.splits sum.splits)

lemma resolve_stainings_Inl:
  "\<exists>s\<in>set L. stains V s = None \<Longrightarrow> \<exists>e. resolve_stainings V L = Inl e"
  by (auto simp: resolve_stainings_find find_None_iff split: option.splits)

subsection \<open>When a call returns\<close>

text \<open>
  A call returns a description when every string it is given is registered (and the
  procedure vocabulary has \<open>Staining\<close>, which the call looks up when stainings are
  given); the generator has then run once.
\<close>

lemma create_simple_sample_returns:
  assumes em: "\<forall>m. embedding_medium = Some m \<longrightarrow> embedding_media V m \<noteq> None"
    and fx: "\<forall>f. fixative = Some f \<longrightarrow> fixatives V f \<noteq> None"
    and st: "\<forall>L. stainings = Some L \<longrightarrow>
           preparation_procedures V ''Staining'' \<noteq> None \<and> (\<forall>s\<in>set L. stains V s \<noteq> None)"
  shows "\<exists>d. create_simple_sample V sample_id embedding_medium fixative stainings uid_generator g
           = (Inr d, snd (uid_generator g))"
proof -
  have "\<exists>c. (case embedding_medium of
              Some m \<Rightarrow> map_sum id Some (SpecimenEmbeddingMediaCode V m)
            | None \<Rightarrow> Inr None) = Inr c"
    using em by (cases embedding_medium) (auto simp: SpecimenEmbeddingMediaCode_def resolve_def)
  then obtain c1 where c1: "(case embedding_medium of
              Some m \<Rightarrow> map_sum id Some (SpecimenEmbeddingMediaCode V m)
            | None \<Rightarrow> Inr None) = Inr c1" by blast
  have "\<exists>c. (case fixative of
              Some f \<Rightarrow> map_sum id Some (SpecimenFixativesCode V f)
            | None \<Rightarrow> Inr None) = Inr c"
    using fx by (cases fixative) (auto simp: SpecimenFixativesCode_def resolve_def)
  then obtain c2 where c2: "(case fixative of
              Some f \<Rightarrow> map_sum id Some (SpecimenFixativesCode V f)
            | None \<Rightarrow> Inr None) = Inr c2" by blast
  show ?thesis
  proof (cases stainings)
    case None
    then show ?thesis
      by (simp add: create_simple_sample_def c1 c2 split: prod.splits)
  next
    case (Some L)
    with st have p: "preparation_procedures V ''Staining'' \<noteq> None"
      and s: "\<forall>s\<in>set L. stains V s \<noteq> None" by auto
    from s have "find (\<lambda>s. stains V s = None) L = None"
      by (simp add: find_None_iff)
    then have "\<exists>cs. resolve_stainings V L = Inr cs"
      by (simp add: resolve_stainings_find)
    with p obtain t cs where
      "SpecimenPreparationProcedureCode V ''Staining'' = Inr t"
      "resolve_stainings V L = Inr cs"
      by (auto simp: SpecimenPreparationProcedureCode_def resolve_def)
    with Some show ?thesis
      by (simp add: create_simple_sample_def c1 c2 split: prod.splits)
  qed
qed

subsection \<open>Image type\<close>

text \<open>
  C7. For every flavour (the three the docstring names, and any other string) and every
  level index, \<open>get_image_type\<close> returns a list of four elements; the third is the
  flavour, and the fourth is \<open>NONE\<close> exactly when the flavour is \<open>VOLUME\<close> and the
  level index is 0, and \<open>RESAMPLED\<close> in every other case. The function has no failing
  branch: the equations hold of its value for all arguments.
\<close>

theorem get_image_type_flavor_and_resampling:
  "length (get_image_type image_flavor level_index) = 4
   \<and> get_image_type image_flavor level_index ! 2 = image_flavor
   \<and> ((get_image_type image_flavor level_index ! 3 = ''NONE'')
        = (image_flavor = ''VOLUME'' \<and> level_index = 0))
   \<and> ((get_image_type image_flavor level_index ! 3 = ''RESAMPLED'')
        = (\<not> (image_flavor = ''VOLUME'' \<and> level_index = 0)))"
  by (simp add: get_image_type_def Let_def)

text \<open>
  C8. The claim that the list starts with \<open>ORIGINAL\<close> fails on the code: at the base
  level of a volume image the function returns \<open>ORGINAL\<close>, the literal of line 37, as
  its first element, which differs from the DICOM keyword \<open>ORIGINAL\<close>.
\<close>

theorem get_image_type_first_element_misspelt:
  "get_image_type ''VOLUME'' 0 = [''ORGINAL'', ''PRIMARY'', ''VOLUME'', ''NONE'']
   \<and> get_image_type ''VOLUME'' 0 \<noteq> [''ORIGINAL'', ''PRIMARY'', ''VOLUME'', ''NONE'']"
  by (simp add: get_image_type_def Let_def)

subsection \<open>Specimen module\<close>

text \<open>
  C5. The specimen description sequence of the record built by
  \<open>create_simple_specimen_module\<close> is the list of samples it was given: the same
  number of elements, each at its input position.
\<close>

theorem create_simple_specimen_module_keeps_samples:
  "SpecimenDescriptionSequence (create_simple_specimen_module slide_id samples) = samples
   \<and> length (SpecimenDescriptionSequence (create_simple_specimen_module slide_id samples))
       = length samples"
  by (simp add: create_simple_specimen_module_def Let_def)

subsection \<open>Stainings and the preparation step\<close>

text \<open>
  C1, as amended. When the stainings argument is absent, a description that
  \<open>create_simple_sample\<close> returns has no preparation step, whatever the embedding
  medium and the fixative are. (The claim also names the empty list: see the
  counterexample below.)
\<close>

theorem create_simple_sample_no_stainings_no_step:
  assumes "create_simple_sample V sample_id embedding_medium fixative None uid_generator g
             = (Inr d, g')"
  shows "specimen_preparation_steps d = None \<and> preparation_steps d = []"
  using assms
  by (auto simp: create_simple_sample_def preparation_steps_def
      split: option.splits sum.splits prod.splits)

theorem create_simple_sample_no_stainings_no_step_witness:
  "create_simple_sample sample_vocabulary ''S1'' (Some ''Paraffin wax'')
      (Some ''Neutral Buffered Formalin'') None counting_uid 0
     = (Inr \<lparr>specimen_id = ''S1'', specimen_uid = ''1.2.826.0.1.3680043.8.498.1'',
             specimen_preparation_steps = None\<rparr>, 1)
   \<and> preparation_steps
        \<lparr>specimen_id = ''S1'', specimen_uid = ''1.2.826.0.1.3680043.8.498.1'',
         specimen_preparation_steps = None\<rparr> = []"
proof -
  have call: "create_simple_sample sample_vocabulary ''S1'' (Some ''Paraffin wax'')
      (Some ''Neutral Buffered Formalin'') None counting_uid 0
     = (Inr \<lparr>specimen_id = ''S1'', specimen_uid = ''1.2.826.0.1.3680043.8.498.1'',
             specimen_preparation_steps = None\<rparr>, 1)"
    by (simp add: create_simple_sample_def sample_vocabulary_def counting_uid_def
        SpecimenEmbeddingMediaCode_def SpecimenFixativesCode_def resolve_def)
  from create_simple_sample_no_stainings_no_step [OF call] call show ?thesis
    by simp
qed

text \<open>
  C1 as stated fails for the empty list. The test of line 126 is
  \<^verbatim>\<open>stainings is not None\<close>, so the call
  \<^verbatim>\<open>create_simple_sample('S1', stainings=[])\<close> enters the branch that builds a step:
  the description it returns holds one preparation step, whose staining has no substance.
\<close>

theorem create_simple_sample_empty_stainings_builds_step:
  "create_simple_sample sample_vocabulary ''S1'' None None (Some []) counting_uid 0
     = (Inr \<lparr>specimen_id = ''S1'', specimen_uid = ''1.2.826.0.1.3680043.8.498.1'',
             specimen_preparation_steps =
               Some [\<lparr>step_specimen_id = ''S1'',
                      step_processing_type =
                        \<lparr>code_value = ''127790008'', scheme_designator = ''SCT'',
                         meaning = ''Staining''\<rparr>,
                      step_processing_procedure = [],
                      step_embedding_medium = None,
                      step_fixative = None\<rparr>]\<rparr>, 1)
   \<and> length (preparation_steps
        \<lparr>specimen_id = ''S1'', specimen_uid = ''1.2.826.0.1.3680043.8.498.1'',
         specimen_preparation_steps =
           Some [\<lparr>step_specimen_id = ''S1'',
                  step_processing_type =
                    \<lparr>code_value = ''127790008'', scheme_designator = ''SCT'',
                     meaning = ''Staining''\<rparr>,
                  step_processing_procedure = [],
                  step_embedding_medium = None,
                  step_fixative = None\<rparr>]\<rparr>) = 1"
  by (simp add: create_simple_sample_def sample_vocabulary_def counting_uid_def
      SpecimenPreparationProcedureCode_def resolve_def preparation_steps_def)

text \<open>
  C3. Let \<open>L\<close> be a non-empty list of staining strings, each registered in the stain
  vocabulary. A description that \<open>create_simple_sample\<close> returns for \<open>L\<close> has exactly
  one preparation step, and the staining sequence of that step, read element by element,
  is the list of the resolutions of the elements of \<open>L\<close>: the same length and the same
  order, nothing dropped, added or moved.
\<close>

theorem create_simple_sample_keeps_staining_order:
  assumes "L \<noteq> []"
    and "\<forall>s\<in>set L. stains V s \<noteq> None"
    and "create_simple_sample V sample_id embedding_medium fixative (Some L) uid_generator g
           = (Inr d, g')"
  shows "map (\<lambda>step. map Some (step_processing_procedure step)) (preparation_steps d)
           = [map (stains V) L]"
proof -
  from assms(3) obtain cs step where
    cs: "resolve_stainings V L = Inr cs"
    and d: "specimen_preparation_steps d = Some [step]"
    and step: "step_processing_procedure step = cs"
    unfolding create_simple_sample_def
    by (auto split: option.splits sum.splits prod.splits)
  from cs have "map (stains V) L = map Some cs"
    by (rule resolve_stainings_Inr)
  with d step show ?thesis
    by (simp add: preparation_steps_def)
qed

theorem create_simple_sample_keeps_staining_order_witness:
  "[''water soluble eosin stain'', ''hematoxylin stain''] \<noteq> []
   \<and> stains sample_vocabulary ''water soluble eosin stain'' \<noteq> None
   \<and> stains sample_vocabulary ''hematoxylin stain'' \<noteq> None
   \<and> map (\<lambda>step. map Some (step_processing_procedure step))
        (preparation_steps
          \<lparr>specimen_id = ''S1'', specimen_uid = ''1.2.826.0.1.3680043.8.498.1'',
           specimen_preparation_steps =
             Some [\<lparr>step_specimen_id = ''S1'',
                    step_processing_type =
                      \<lparr>code_value = ''127790008'', scheme_designator = ''SCT'',
                       meaning = ''Staining''\<rparr>,
                    step_processing_procedure =
                      [\<lparr>code_value = ''36879007'', scheme_designator = ''SCT'',
                        meaning = ''water soluble eosin stain''\<rparr>,
                       \<lparr>code_value = ''12710003'', scheme_designator = ''SCT'',
                        meaning = ''hematoxylin stain''\<rparr>],
                    step_embedding_medium =
                      Some \<lparr>code_value = ''311731000'', scheme_designator = ''SCT'',
                            meaning = ''Paraffin wax''\<rparr>,
                    step_fixative = None\<rparr>]\<rparr>)
       = [map (stains sample_vocabulary)
            [''water soluble eosin stain'', ''hematoxylin stain'']]"
proof -
  have nonempty: "[''water soluble eosin stain'', ''hematoxylin stain''] \<noteq> []"
    by simp
  have registered:
    "\<forall>s\<in>set [''water soluble eosin stain'', ''hematoxylin stain''].
       stains sample_vocabulary s \<noteq> None"
    by (simp add: sample_vocabulary_def)
  have call: "create_simple_sample sample_vocabulary ''S1'' (Some ''Paraffin wax'') None
      (Some [''water soluble eosin stain'', ''hematoxylin stain'']) counting_uid 0
    = (Inr \<lparr>specimen_id = ''S1'', specimen_uid = ''1.2.826.0.1.3680043.8.498.1'',
           specimen_preparation_steps =
             Some [\<lparr>step_specimen_id = ''S1'',
                    step_processing_type =
                      \<lparr>code_value = ''127790008'', scheme_designator = ''SCT'',
                       meaning = ''Staining''\<rparr>,
                    step_processing_procedure =
                      [\<lparr>code_value = ''36879007'', scheme_designator = ''SCT'',
                        meaning = ''water soluble eosin stain''\<rparr>,
                       \<lparr>code_value = ''12710003'', scheme_designator = ''SCT'',
                        meaning = ''hematoxylin stain''\<rparr>],
                    step_embedding_medium =
                      Some \<lparr>code_value = ''311731000'', scheme_designator = ''SCT'',
                            meaning = ''Paraffin wax''\<rparr>,
                    step_fixative = None\<rparr>]\<rparr>, 1)"
    by (simp add: create_simple_sample_def sample_vocabulary_def counting_uid_def
        SpecimenEmbeddingMediaCode_def SpecimenPreparationProcedureCode_def
        SpecimenStainsCode_def resolve_def)
  from registered have each:
    "stains sample_vocabulary ''water soluble eosin stain'' \<noteq> None
     \<and> stains sample_vocabulary ''hematoxylin stain'' \<noteq> None"
    by simp
  from create_simple_sample_keeps_staining_order [OF nonempty registered call] each
  show ?thesis
    by simp
qed

text \<open>
  C6. In a description that \<open>create_simple_sample\<close> returns, every preparation step
  carries the specimen identifier of the description (the sample identifier of the call),
  and its processing type is the code that the procedure vocabulary gives for
  \<open>Staining\<close>.
\<close>

theorem create_simple_sample_step_identifier_and_type:
  assumes "create_simple_sample V sample_id embedding_medium fixative stainings uid_generator g
             = (Inr d, g')"
    and "step \<in> set (preparation_steps d)"
  shows "step_specimen_id step = specimen_id d
         \<and> specimen_id d = sample_id
         \<and> SpecimenPreparationProcedureCode V ''Staining'' = Inr (step_processing_type step)"
  using assms
  by (auto simp: create_simple_sample_def preparation_steps_def
      split: option.splits sum.splits prod.splits)

theorem create_simple_sample_step_identifier_and_type_witness:
  "create_simple_sample sample_vocabulary ''S1'' None None (Some [''hematoxylin stain''])
      counting_uid 0
     = (Inr \<lparr>specimen_id = ''S1'', specimen_uid = ''1.2.826.0.1.3680043.8.498.1'',
             specimen_preparation_steps =
               Some [\<lparr>step_specimen_id = ''S1'',
                      step_processing_type =
                        \<lparr>code_value = ''127790008'', scheme_designator = ''SCT'',
                         meaning = ''Staining''\<rparr>,
                      step_processing_procedure =
                        [\<lparr>code_value = ''12710003'', scheme_designator = ''SCT'',
                          meaning = ''hematoxylin stain''\<rparr>],
                      step_embedding_medium = None,
                      step_fixative = None\<rparr>]\<rparr>, 1)
   \<and> SpecimenPreparationProcedureCode sample_vocabulary ''Staining''
       = Inr \<lparr>code_value = ''127790008'', scheme_designator = ''SCT'',
              meaning = ''Staining''\<rparr>"
proof -
  let ?step = "\<lparr>step_specimen_id = ''S1'',
                 step_processing_type =
                   \<lparr>code_value = ''127790008'', scheme_designator = ''SCT'',
                    meaning = ''Staining''\<rparr>,
                 step_processing_procedure =
                   [\<lparr>code_value = ''12710003'', scheme_designator = ''SCT'',
                     meaning = ''hematoxylin stain''\<rparr>],
                 step_embedding_medium = None,
                 step_fixative = None\<rparr>"
  let ?d = "\<lparr>specimen_id = ''S1'', specimen_uid = ''1.2.826.0.1.3680043.8.498.1'',
              specimen_preparation_steps = Some [?step]\<rparr>"
  have call: "create_simple_sample sample_vocabulary ''S1'' None None
      (Some [''hematoxylin stain'']) counting_uid 0 = (Inr ?d, 1)"
    by (simp add: create_simple_sample_def sample_vocabulary_def counting_uid_def
        SpecimenPreparationProcedureCode_def SpecimenStainsCode_def resolve_def)
  have member: "?step \<in> set (preparation_steps ?d)"
    by (simp add: preparation_steps_def)
  from create_simple_sample_step_identifier_and_type [OF call member] call
  show ?thesis
    by simp
qed

subsection \<open>The specimen UID\<close>

text \<open>
  C4, as amended. When \<open>create_simple_sample\<close> returns a description, the UID
  generator has made one step from the state the call started in: the specimen UID of
  the description is the very value that step returned, and the generator is left in the
  state after that one step. The value depends on the generator and its state only, not
  on the sample identifier. When the call raises, the generator has made no step.
\<close>

theorem create_simple_sample_uid_from_one_call:
  "(create_simple_sample V sample_id embedding_medium fixative stainings uid_generator g
      = (Inr d, g') \<longrightarrow> (specimen_uid d, g') = uid_generator g)
   \<and> (create_simple_sample V sample_id embedding_medium fixative stainings uid_generator g
      = (Inl e, g') \<longrightarrow> g' = g)"
  by (auto simp: create_simple_sample_def split: option.splits sum.splits prod.splits)

theorem create_simple_sample_uid_from_one_call_witness:
  "create_simple_sample sample_vocabulary ''sample id'' None None None counting_uid 0
     = (Inr \<lparr>specimen_id = ''sample id'', specimen_uid = ''1.2.826.0.1.3680043.8.498.1'',
             specimen_preparation_steps = None\<rparr>, 1)
   \<and> counting_uid 0 = (''1.2.826.0.1.3680043.8.498.1'', 1)"
proof -
  have call: "create_simple_sample sample_vocabulary ''sample id'' None None None counting_uid 0
     = (Inr \<lparr>specimen_id = ''sample id'', specimen_uid = ''1.2.826.0.1.3680043.8.498.1'',
             specimen_preparation_steps = None\<rparr>, 1)"
    by (simp add: create_simple_sample_def counting_uid_def)
  from create_simple_sample_uid_from_one_call
         [of sample_vocabulary "''sample id''" None None None counting_uid 0
             "\<lparr>specimen_id = ''sample id'', specimen_uid = ''1.2.826.0.1.3680043.8.498.1'',
               specimen_preparation_steps = None\<rparr>" 1]
       call
  have "(specimen_uid \<lparr>specimen_id = ''sample id'',
            specimen_uid = ''1.2.826.0.1.3680043.8.498.1'',
            specimen_preparation_steps = None\<rparr>, 1) = counting_uid 0"
    by blast
  with call show ?thesis
    by simp
qed

text \<open>
  C4 as stated fails for a call that raises: the look-ups come before line 144, so a
  call with an unregistered embedding medium ends with the generator in the state it
  started in (no call made so far), where one call would have left the count at 1.
\<close>

theorem create_simple_sample_raising_call_skips_generator:
  "create_simple_sample sample_vocabulary ''S1'' (Some ''Unregistered medium'') None None
      counting_uid 0
     = (Inl (UnknownCodeError EmbeddingMedium ''Unregistered medium''), 0)
   \<and> snd (counting_uid 0) = 1"
  by (simp add: create_simple_sample_def sample_vocabulary_def counting_uid_def
      SpecimenEmbeddingMediaCode_def resolve_def)

subsection \<open>Resolution errors\<close>

text \<open>
  C2, as amended. A call whose stainings list holds an unregistered string raises an
  error, returns no description and leaves the UID generator untouched. The error it
  raises is the one of the first look-up that fails, in the order of the source: the
  embedding medium, the fixative, the \<open>Staining\<close> procedure, then the stainings from
  left to right. So when the embedding medium and the fixative that are supplied are
  registered, and \<open>Staining\<close> is a registered procedure, the error is the
  \<open>UnknownCodeError\<close> of the stain category that names the first unregistered string of
  the list.
\<close>

theorem create_simple_sample_unregistered_staining:
  "((\<exists>s\<in>set L. stains V s = None) \<longrightarrow>
      (\<exists>e. create_simple_sample V sample_id embedding_medium fixative (Some L) uid_generator g
          = (Inl e, g)))
   \<and> ((\<forall>m. embedding_medium = Some m \<longrightarrow> embedding_media V m \<noteq> None)
      \<and> (\<forall>f. fixative = Some f \<longrightarrow> fixatives V f \<noteq> None)
      \<and> preparation_procedures V ''Staining'' \<noteq> None
      \<and> find (\<lambda>s. stains V s = None) L = Some s \<longrightarrow>
        create_simple_sample V sample_id embedding_medium fixative (Some L) uid_generator g
          = (Inl (UnknownCodeError Stain s), g))"
proof (intro conjI impI)
  assume "\<exists>s\<in>set L. stains V s = None"
  then obtain e where "resolve_stainings V L = Inl e"
    using resolve_stainings_Inl by blast
  then show "\<exists>e. create_simple_sample V sample_id embedding_medium fixative (Some L)
                 uid_generator g = (Inl e, g)"
    by (auto simp: create_simple_sample_def split: option.splits sum.splits prod.splits)
next
  assume "(\<forall>m. embedding_medium = Some m \<longrightarrow> embedding_media V m \<noteq> None)
      \<and> (\<forall>f. fixative = Some f \<longrightarrow> fixatives V f \<noteq> None)
      \<and> preparation_procedures V ''Staining'' \<noteq> None
      \<and> find (\<lambda>s. stains V s = None) L = Some s"
  then show "create_simple_sample V sample_id embedding_medium fixative (Some L)
               uid_generator g = (Inl (UnknownCodeError Stain s), g)"
    by (auto simp: create_simple_sample_def resolve_stainings_find
        SpecimenEmbeddingMediaCode_def SpecimenFixativesCode_def
        SpecimenPreparationProcedureCode_def resolve_def
        split: option.splits sum.splits prod.splits)
qed

theorem create_simple_sample_unregistered_staining_witness:
  "stains sample_vocabulary ''Unobtainium'' = None
   \<and> find (\<lambda>s. stains sample_vocabulary s = None)
        [''hematoxylin stain'', ''Unobtainium'', ''Kryptonite''] = Some ''Unobtainium''
   \<and> create_simple_sample sample_vocabulary ''S1'' (Some ''Paraffin wax'') None
        (Some [''hematoxylin stain'', ''Unobtainium'', ''Kryptonite'']) counting_uid 0
       = (Inl (UnknownCodeError Stain ''Unobtainium''), 0)"
proof -
  have unregistered: "stains sample_vocabulary ''Unobtainium'' = None"
    by (simp add: sample_vocabulary_def)
  have first: "find (\<lambda>s. stains sample_vocabulary s = None)
        [''hematoxylin stain'', ''Unobtainium'', ''Kryptonite''] = Some ''Unobtainium''"
    by (simp add: sample_vocabulary_def)
  have others:
    "(\<forall>m. Some ''Paraffin wax'' = Some m \<longrightarrow> embedding_media sample_vocabulary m \<noteq> None)
     \<and> (\<forall>f. (None :: string option) = Some f \<longrightarrow> fixatives sample_vocabulary f \<noteq> None)
     \<and> preparation_procedures sample_vocabulary ''Staining'' \<noteq> None"
    by (simp add: sample_vocabulary_def)
  from create_simple_sample_unregistered_staining
         [of "[''hematoxylin stain'', ''Unobtainium'', ''Kryptonite'']" sample_vocabulary
             "''S1''" "Some ''Paraffin wax''" None counting_uid 0 "''Unobtainium''"]
       others first
  have "create_simple_sample sample_vocabulary ''S1'' (Some ''Paraffin wax'') None
        (Some [''hematoxylin stain'', ''Unobtainium'', ''Kryptonite'']) counting_uid 0
       = (Inl (UnknownCodeError Stain ''Unobtainium''), 0)"
    by blast
  with unregistered first show ?thesis
    by blast
qed

text \<open>
  C2 as stated fails: the unregistered string of the stainings list is not always the
  one the error names. The embedding medium is resolved first (lines 116 to 119), so with
  an unregistered embedding medium the error names that string, and the stainings are
  never looked at. And of two unregistered stainings the error names the first only.
\<close>

theorem create_simple_sample_error_names_first_failure:
  "stains sample_vocabulary ''Unobtainium'' = None
   \<and> create_simple_sample sample_vocabulary ''S1'' (Some ''Unregistered medium'') None
        (Some [''Unobtainium'']) counting_uid 0
       = (Inl (UnknownCodeError EmbeddingMedium ''Unregistered medium''), 0)
   \<and> UnknownCodeError EmbeddingMedium ''Unregistered medium''
       \<noteq> UnknownCodeError Stain ''Unobtainium''
   \<and> stains sample_vocabulary ''Kryptonite'' = None
   \<and> create_simple_sample sample_vocabulary ''S1'' None None
        (Some [''Unobtainium'', ''Kryptonite'']) counting_uid 0
       = (Inl (UnknownCodeError Stain ''Unobtainium''), 0)
   \<and> UnknownCodeError Stain ''Unobtainium'' \<noteq> UnknownCodeError Stain ''Kryptonite''"
  by (simp add: create_simple_sample_def sample_vocabulary_def
      SpecimenEmbeddingMediaCode_def SpecimenPreparationProcedureCode_def
      SpecimenStainsCode_def resolve_def)

text \<open>
  C10. A supplied embedding medium or fixative is resolved before the stainings are
  looked at, whatever they are, and so also when they are absent and no preparation step
  will be built: a call with an unregistered embedding medium or an unregistered fixative
  raises an \<open>UnknownCodeError\<close> of one of these two categories, returns no description
  and does not call the UID generator. More precisely, an unregistered embedding medium
  raises the error that names it, and an unregistered fixative raises the error that
  names it when the embedding medium, if one is supplied, is registered.
\<close>

theorem create_simple_sample_resolves_medium_and_fixative:
  "((\<exists>m. embedding_medium = Some m \<and> embedding_media V m = None)
      \<or> (\<exists>f. fixative = Some f \<and> fixatives V f = None) \<longrightarrow>
      (\<exists>c s. c \<in> {EmbeddingMedium, Fixative}
         \<and> create_simple_sample V sample_id embedding_medium fixative stainings uid_generator g
             = (Inl (UnknownCodeError c s), g)))
   \<and> (embedding_medium = Some m \<and> embedding_media V m = None \<longrightarrow>
      create_simple_sample V sample_id embedding_medium fixative stainings uid_generator g
        = (Inl (UnknownCodeError EmbeddingMedium m), g))
   \<and> ((\<forall>m. embedding_medium = Some m \<longrightarrow> embedding_media V m \<noteq> None)
       \<and> fixative = Some f \<and> fixatives V f = None \<longrightarrow>
      create_simple_sample V sample_id embedding_medium fixative stainings uid_generator g
        = (Inl (UnknownCodeError Fixative f), g))"
  by (auto simp: create_simple_sample_def
        SpecimenEmbeddingMediaCode_def SpecimenFixativesCode_def resolve_def
        split: option.splits sum.splits prod.splits)

theorem create_simple_sample_resolves_medium_and_fixative_witness:
  "embedding_media sample_vocabulary ''Unregistered medium'' = None
   \<and> create_simple_sample sample_vocabulary ''S1'' (Some ''Unregistered medium'')
        (Some ''Neutral Buffered Formalin'') None counting_uid 0
       = (Inl (UnknownCodeError EmbeddingMedium ''Unregistered medium''), 0)
   \<and> embedding_media sample_vocabulary ''Paraffin wax'' \<noteq> None
   \<and> fixatives sample_vocabulary ''Unregistered fixative'' = None
   \<and> create_simple_sample sample_vocabulary ''S1'' (Some ''Paraffin wax'')
        (Some ''Unregistered fixative'') None counting_uid 0
       = (Inl (UnknownCodeError Fixative ''Unregistered fixative''), 0)"
proof -
  have medium: "embedding_media sample_vocabulary ''Unregistered medium'' = None"
    and wax: "embedding_media sample_vocabulary ''Paraffin wax'' \<noteq> None"
    and unfixed: "fixatives sample_vocabulary ''Unregistered fixative'' = None"
    by (simp_all add: sample_vocabulary_def)
  from wax have wax':
    "\<forall>m. Some ''Paraffin wax'' = Some m \<longrightarrow> embedding_media sample_vocabulary m \<noteq> None"
    by simp
  from create_simple_sample_resolves_medium_and_fixative
         [where embedding_medium = "Some ''Unregistered medium''"
            and m = "''Unregistered medium''" and V = sample_vocabulary
            and sample_id = "''S1''" and fixative = "Some ''Neutral Buffered Formalin''"
            and stainings = None and uid_generator = counting_uid and g = 0]
       medium
  have first: "create_simple_sample sample_vocabulary ''S1'' (Some ''Unregistered medium'')
        (Some ''Neutral Buffered Formalin'') None counting_uid 0
       = (Inl (UnknownCodeError EmbeddingMedium ''Unregistered medium''), 0)"
    by blast
  from create_simple_sample_resolves_medium_and_fixative
         [where embedding_medium = "Some ''Paraffin wax''" and V = sample_vocabulary
            and sample_id = "''S1''" and fixative = "Some ''Unregistered fixative''"
            and f = "''Unregistered fixative''"
            and stainings = None and uid_generator = counting_uid and g = 0]
       wax' unfixed
  have second: "create_simple_sample sample_vocabulary ''S1'' (Some ''Paraffin wax'')
        (Some ''Unregistered fixative'') None counting_uid 0
       = (Inl (UnknownCodeError Fixative ''Unregistered fixative''), 0)"
    by blast
  from medium first wax unfixed second show ?thesis
    by blast
qed

subsection \<open>Identifiers\<close>

text \<open>
  C9, as amended. Neither builder checks its identifier. For every string, the empty
  one included, \<open>create_simple_specimen_module\<close> returns a record whose container
  identifier is that string. For \<open>create_simple_sample\<close> the outcome with a given
  sample identifier and the outcome with the empty identifier agree but for the
  identifier stored: both raise the same error, or both return a description, and the
  description of the first holds the identifier given.
\<close>

theorem identifiers_are_stored_unchecked:
  "ContainerIdentifier (create_simple_specimen_module slide_id samples) = slide_id
   \<and> map_sum id specimen_id
        (fst (create_simple_sample V sample_id embedding_medium fixative stainings
                uid_generator g))
     = map_sum id (\<lambda>d. sample_id)
        (fst (create_simple_sample V [] embedding_medium fixative stainings
                uid_generator g))"
proof
  show "ContainerIdentifier (create_simple_specimen_module slide_id samples) = slide_id"
    by (simp add: create_simple_specimen_module_def Let_def)
next
  show "map_sum id specimen_id
        (fst (create_simple_sample V sample_id embedding_medium fixative stainings
                uid_generator g))
     = map_sum id (\<lambda>d. sample_id)
        (fst (create_simple_sample V [] embedding_medium fixative stainings
                uid_generator g))"
    unfolding create_simple_sample_def
    by (cases embedding_medium; cases fixative; cases stainings;
        simp split: sum.splits prod.splits)
qed

text \<open>
  C9 as stated fails: the module has no check of an identifier and raises nothing for
  an empty one. With the empty string, \<open>create_simple_sample\<close> returns a description
  whose specimen identifier is empty, and \<open>create_simple_specimen_module\<close> a record
  whose container identifier is empty.
\<close>

theorem empty_identifiers_are_accepted:
  "create_simple_sample sample_vocabulary [] None None None counting_uid 0
     = (Inr \<lparr>specimen_id = [], specimen_uid = ''1.2.826.0.1.3680043.8.498.1'',
             specimen_preparation_steps = None\<rparr>, 1)
   \<and> ContainerIdentifier (create_simple_specimen_module [] []) = []"
  by (simp add: create_simple_sample_def counting_uid_def
      create_simple_specimen_module_def Let_def)

end
